theory Spec2Isabelle
  imports Complex_Main "HOL-Library.Word"
begin

section \<open>Python and NumPy primitives used by \<open>fingers2.py\<close>\<close>

text \<open>
  Python floats are modelled as reals: the model keeps every truncation, floor and
  comparison of the source and leaves out the rounding of the individual float
  operations. The concrete inputs evaluated below are chosen so that every value whose
  truncation or floor decides a conclusion lies well away from an integer boundary.

  \<open>int(x)\<close> on a float truncates towards zero; \<open>a // b\<close> on floats is the floor of the
  quotient, returned as a float. The source only ever divides by the literal 2.
\<close>

definition py_int :: "real \<Rightarrow> int" where
  "py_int x = (if 0 \<le> x then \<lfloor>x\<rfloor> else \<lceil>x\<rceil>)"

definition py_floordiv :: "real \<Rightarrow> real \<Rightarrow> real" where
  "py_floordiv a b = of_int \<lfloor>a / b\<rfloor>"

type_synonym point = "int \<times> int"
type_synonym fpoint = "real \<times> real"

text \<open>A 2x3 affine matrix, row by row.\<close>

type_synonym matrix = "(real \<times> real \<times> real) \<times> (real \<times> real \<times> real)"

section \<open>Coordinate frame translation\<close>

text \<open>
  \<open>transform_point\<close>: the matrix times the homogeneous point \<open>(x, y, 1)\<close>, each
  coordinate truncated by \<open>int\<close>.
\<close>

definition transform_point :: "point \<Rightarrow> matrix \<Rightarrow> point" where
  "transform_point p m =
     (case m of ((a, b, c), (d, e, f)) \<Rightarrow>
        (py_int (a * of_int (fst p) + b * of_int (snd p) + c * 1),
         py_int (d * of_int (fst p) + e * of_int (snd p) + f * 1)))"

definition adjust_for_roi_crop :: "point \<Rightarrow> fpoint \<Rightarrow> fpoint \<Rightarrow> point" where
  "adjust_for_roi_crop p roi_center roi_size =
     (let x_offset = py_int (fst roi_center - py_floordiv (fst roi_size) 2);
          y_offset = py_int (snd roi_center - py_floordiv (snd roi_size) 2);
          adjusted_x = fst p - x_offset;
          adjusted_y = snd p - y_offset
      in (adjusted_x, adjusted_y))"

text \<open>
  The specification's wording of the same operation: the offset is
  \<open>roi_center - roi_size / 2\<close>, truncated. Used only to compare with the code.
\<close>

definition spec_crop_offset :: "real \<Rightarrow> real \<Rightarrow> int" where
  "spec_crop_offset c s = py_int (c - s / 2)"

definition spec_adjust_for_roi_crop :: "point \<Rightarrow> fpoint \<Rightarrow> fpoint \<Rightarrow> point" where
  "spec_adjust_for_roi_crop p c s =
     (fst p - spec_crop_offset (fst c) (fst s), snd p - spec_crop_offset (snd c) (snd s))"

section \<open>Arrays and errors\<close>

text \<open>
  A NumPy array of 8-bit values: its shape and its elements in row-major order. An image
  of height \<open>h\<close> and width \<open>w\<close> with \<open>c\<close> channels has shape \<open>[h, w, c]\<close>; the element of
  channel \<open>k\<close> at row \<open>y\<close> and column \<open>x\<close> is \<open>data ! ((y * w + x) * c + k)\<close>.
\<close>

record ndarray =
  shape :: "nat list"
  data :: "8 word list"

definition array_size :: "ndarray \<Rightarrow> nat" where
  "array_size a = prod_list (shape a)"

text \<open>
  The exceptions the module raises itself or provokes in NumPy and OpenCV. \<open>CvError\<close> is
  \<open>cv2.error\<close>, a subclass of \<open>Exception\<close> and not of \<open>ValueError\<close>.
\<close>

datatype error = ValueError string | IndexError | CvError

section \<open>Mask Builder\<close>

text \<open>
  \<open>cv2.cvtColor (image, COLOR_RGB2GRAY)\<close> maps every pixel on its own: the three channel
  values of a pixel to one intensity. The per-pixel function \<open>rgb2gray\<close> belongs to
  OpenCV and is a parameter of the model. The conversion begins with the assertion that
  its source is not empty: on an array without elements it raises \<open>cv2.error\<close>.
\<close>

fun gray_data :: "(8 word \<Rightarrow> 8 word \<Rightarrow> 8 word \<Rightarrow> 8 word) \<Rightarrow> 8 word list \<Rightarrow> 8 word list" where
  "gray_data rgb2gray (r # g # b # rest) = rgb2gray r g b # gray_data rgb2gray rest"
| "gray_data rgb2gray _ = []"

definition cvtColor_RGB2GRAY ::
  "(8 word \<Rightarrow> 8 word \<Rightarrow> 8 word \<Rightarrow> 8 word) \<Rightarrow> ndarray \<Rightarrow> error + ndarray" where
  "cvtColor_RGB2GRAY rgb2gray img =
     (if prod_list (shape img) = 0 then Inl CvError
      else Inr \<lparr>shape = take 2 (shape img), data = gray_data rgb2gray (data img)\<rparr>)"

text \<open>
  \<open>np.where (gray > threshold, 255, 0)\<close> is an integer array; \<open>astype (np.uint8)\<close> reduces
  each entry modulo 256, which \<open>word_of_int\<close> does.
\<close>

definition get_segmentation_mask ::
  "(8 word \<Rightarrow> 8 word \<Rightarrow> 8 word \<Rightarrow> 8 word) \<Rightarrow> ndarray \<Rightarrow> int \<Rightarrow> error + ndarray" where
  "get_segmentation_mask rgb2gray img threshold =
     (if length (shape img) \<noteq> 3 \<or> shape img ! 2 \<noteq> 3
      then Inl (ValueError ''Expected an RGB image with 3 channels.'')
      else
        case cvtColor_RGB2GRAY rgb2gray img of
          Inl e \<Rightarrow> Inl e
        | Inr grayscale_image \<Rightarrow>
            let mask = map (\<lambda>g. if uint g > threshold then (255 :: int) else 0) (data grayscale_image)
            in Inr \<lparr>shape = shape grayscale_image, data = map word_of_int mask\<rparr>)"

text \<open>
  A stand-in for OpenCV's 8-bit conversion (the BT.601 weights in 14-bit fixed point),
  used only to evaluate the model on concrete images.
\<close>

definition bt601 :: "8 word \<Rightarrow> 8 word \<Rightarrow> 8 word \<Rightarrow> 8 word" where
  "bt601 r g b = word_of_nat ((unat r * 4899 + unat g * 9617 + unat b * 1868 + 8192) div 16384)"

text \<open>A 1x2 image: a dark pixel and a bright one. An array of three channels and no row.\<close>

definition two_pixels :: ndarray where
  "two_pixels = \<lparr>shape = [1, 2, 3], data = [3, 4, 5, 200, 210, 220]\<rparr>"


section \<open>Nearest-Contour-Point Finder\<close>

text \<open>
  What \<open>np.squeeze\<close> leaves of an OpenCV contour of shape \<open>(N, 1, 2)\<close>: an \<open>(N, 2)\<close> array of
  points, or, when the contour is a single point, the one-dimensional array of its two
  coordinates.
\<close>

datatype contour = Pts "point list" | Pt point

text \<open>\<open>np.argmin\<close>: the index of the first smallest entry; it raises on an empty array.\<close>

fun argmin_from :: "nat \<Rightarrow> real \<Rightarrow> nat \<Rightarrow> real list \<Rightarrow> nat" where
  "argmin_from best bv i [] = best"
| "argmin_from best bv i (d # ds) =
     (if d < bv then argmin_from i d (Suc i) ds else argmin_from best bv (Suc i) ds)"

definition argmin :: "real list \<Rightarrow> error + nat" where
  "argmin ds =
     (case ds of
        [] \<Rightarrow> Inl (ValueError ''attempt to get argmin of an empty sequence'')
      | d # rest \<Rightarrow> Inr (argmin_from 0 d 1 rest))"

text \<open>
  \<open>np.sqrt (np.sum ((contour - landmark) ** 2, axis=1))\<close>. On pixel coordinates the sums
  of squares are far below \<open>2 ^ 52\<close>, where the float square root still separates distinct
  integers, so the first smallest float is at the first smallest real distance.
\<close>

definition distances :: "point list \<Rightarrow> point \<Rightarrow> real list" where
  "distances c lm = map (\<lambda>q. sqrt (of_int ((fst q - fst lm)\<^sup>2 + (snd q - snd lm)\<^sup>2))) c"

text \<open>
  The body of the loop for the landmark \<open>lm\<close> at position \<open>ctr\<close>. \<open>tips\<close> is the list
  \<open>[THUMB_TIP, INDEX_FINGER_TIP, MIDDLE_FINGER_TIP, RING_FINGER_TIP, PINKY_TIP]\<close>, whose
  values are defined in \<open>landmarks_constants\<close> and are a parameter here.
\<close>

definition closest_pair :: "nat list \<Rightarrow> nat \<Rightarrow> point \<Rightarrow> point list \<Rightarrow> error + (point \<times> point)" where
  "closest_pair tips ctr lm c =
     (let left_contour =
            (if ctr \<in> set tips then filter (\<lambda>q. fst q \<le> fst lm \<and> snd q \<ge> snd lm) c
             else filter (\<lambda>q. fst q \<le> fst lm) c);
          right_contour =
            (if ctr \<in> set tips then filter (\<lambda>q. fst q > fst lm \<and> snd q \<ge> snd lm) c
             else filter (\<lambda>q. fst q > fst lm) c);
          left_contour = (if length left_contour = 0 then c else left_contour);
          right_contour = (if length right_contour = 0 then c else right_contour)
      in case argmin (distances left_contour lm) of
           Inl e \<Rightarrow> Inl e
         | Inr left_min_index \<Rightarrow>
             (case argmin (distances right_contour lm) of
                Inl e \<Rightarrow> Inl e
              | Inr right_min_index \<Rightarrow>
                  Inr (left_contour ! left_min_index, right_contour ! right_min_index)))"

fun closest_loop :: "nat list \<Rightarrow> nat \<Rightarrow> point list \<Rightarrow> point list \<Rightarrow> error + (point \<times> point) list" where
  "closest_loop tips ctr [] c = Inr []"
| "closest_loop tips ctr (lm # lms) c =
     (case closest_pair tips ctr lm c of
        Inl e \<Rightarrow> Inl e
      | Inr pr \<Rightarrow>
          (case closest_loop tips (Suc ctr) lms c of
             Inl e \<Rightarrow> Inl e
           | Inr prs \<Rightarrow> Inr (pr # prs)))"

text \<open>
  On a one-dimensional contour the first \<open>contour[:, 0]\<close> raises \<open>IndexError\<close>; with no
  landmark the loop body never runs.
\<close>

definition closest_contour_point :: "nat list \<Rightarrow> point list \<Rightarrow> contour \<Rightarrow> error + (point \<times> point) list" where
  "closest_contour_point tips landmarks cnt =
     (case cnt of
        Pts c \<Rightarrow> closest_loop tips 0 landmarks c
      | Pt p \<Rightarrow> (if landmarks = [] then Inr [] else Inl IndexError))"

text \<open>The specification's vocabulary for the same search, used to state what the loop computes.\<close>

definition euclid :: "point \<Rightarrow> point \<Rightarrow> real" where
  "euclid p q = sqrt (of_int ((fst q - fst p)\<^sup>2 + (snd q - snd p)\<^sup>2))"

definition left_subset :: "nat list \<Rightarrow> nat \<Rightarrow> point \<Rightarrow> point list \<Rightarrow> point list" where
  "left_subset tips i lm c =
     (if i \<in> set tips then filter (\<lambda>q. fst q \<le> fst lm \<and> snd lm \<le> snd q) c
      else filter (\<lambda>q. fst q \<le> fst lm) c)"

definition right_subset :: "nat list \<Rightarrow> nat \<Rightarrow> point \<Rightarrow> point list \<Rightarrow> point list" where
  "right_subset tips i lm c =
     (if i \<in> set tips then filter (\<lambda>q. fst lm < fst q \<and> snd lm \<le> snd q) c
      else filter (\<lambda>q. fst lm < fst q) c)"

definition or_whole :: "point list \<Rightarrow> point list \<Rightarrow> point list" where
  "or_whole sub c = (if sub = [] then c else sub)"

text \<open>\<open>p\<close> is the first point of \<open>s\<close> among those nearest to \<open>lm\<close>.\<close>

definition first_nearest :: "point \<Rightarrow> point list \<Rightarrow> point \<Rightarrow> bool" where
  "first_nearest lm s p =
     (\<exists>k < length s. p = s ! k
        \<and> (\<forall>j < length s. euclid lm (s ! k) \<le> euclid lm (s ! j))
        \<and> (\<forall>j < k. euclid lm (s ! k) < euclid lm (s ! j)))"

text \<open>A square contour, five landmarks and the MediaPipe numbering of the five tips.\<close>

definition square_contour :: "point list" where
  "square_contour = [(0, 0), (4, 0), (4, 4), (0, 4)]"

definition five_landmarks :: "point list" where
  "five_landmarks = [(1, 1), (3, 3), (2, 1), (0, 2), (2, 1)]"

definition mediapipe_tips :: "nat list" where
  "mediapipe_tips = [4, 8, 12, 16, 20]"

section \<open>Contour Extractor\<close>

text \<open>
  \<open>np.squeeze\<close> drops every dimension of length one: a contour of one point loses its
  first dimension as well.
\<close>

definition squeeze :: "point list \<Rightarrow> contour" where
  "squeeze c = (case c of [p] \<Rightarrow> Pt p | _ \<Rightarrow> Pts c)"

text \<open>
  \<open>cv2.findContours\<close> (with \<open>RETR_EXTERNAL\<close>) and \<open>cv2.contourArea\<close> belong to OpenCV and
  are parameters. \<open>sorted (contours, key=cv2.contourArea, reverse=True)\<close> is a stable sort
  in descending order of area, that is, a stable ascending sort on the negated area.
\<close>

definition extract_contour ::
  "(ndarray \<Rightarrow> point list list) \<Rightarrow> (point list \<Rightarrow> real) \<Rightarrow> ndarray \<Rightarrow> error + contour" where
  "extract_contour findContours contourArea img =
     (let contours = findContours img
      in if contours = [] then Inl (ValueError ''No contours found in the image'')
         else
           let contours = sort_key (\<lambda>c. - contourArea c) contours
           in Inr (squeeze (contours ! 0)))"

text \<open>
  Green's formula for the area of a polygon, the quantity \<open>cv2.contourArea\<close> documents;
  used only to evaluate the model on concrete contours.
\<close>

fun cross_sum :: "point \<Rightarrow> point list \<Rightarrow> int" where
  "cross_sum first [] = 0"
| "cross_sum first [p] = fst p * snd first - fst first * snd p"
| "cross_sum first (p # q # rest) = fst p * snd q - fst q * snd p + cross_sum first (q # rest)"

definition polygon_area :: "point list \<Rightarrow> real" where
  "polygon_area c = (case c of [] \<Rightarrow> 0 | p # _ \<Rightarrow> \<bar>of_int (cross_sum p c)\<bar> / 2)"

definition three_contours :: "point list list" where
  "three_contours = [[(0, 0), (1, 0), (1, 1)], [(9, 9)], [(0, 0), (4, 0), (4, 4), (0, 4)]]"

section \<open>Rotated ROI Extractor\<close>

text \<open>A rotated rectangle as OpenCV returns it: center, (width, height), angle in degrees.\<close>

type_synonym rrect = "fpoint \<times> fpoint \<times> real"

text \<open>
  \<open>cv2.minAreaRect\<close> is a parameter. The points reach it as integers
  (\<open>astype (int)\<close>); the image argument is not used.
\<close>

definition get_bounding_box :: "(point list \<Rightarrow> rrect) \<Rightarrow> ndarray \<Rightarrow> point list \<Rightarrow> rrect" where
  "get_bounding_box minAreaRect img points =
     (let rect_points = points;
          rect = minAreaRect rect_points
      in case rect of (center, (width, height), theta) \<Rightarrow>
           if width > height then (center, (height, width), theta - 90)
           else (center, (width, height), theta))"

text \<open>
  A slice bound of Python on an axis of length \<open>n\<close>: a negative bound counts from the end
  and is clamped at 0, a bound beyond the end is clamped at \<open>n\<close>.
\<close>

definition slice_bound :: "nat \<Rightarrow> int \<Rightarrow> nat" where
  "slice_bound n i = (if i < 0 then nat (i + int n) else min (nat i) n)"

text \<open>
  \<open>a[y0:y1, x0:x1]\<close> on an array of at least two dimensions: the rows and columns between
  the normalised bounds; no row or column when a stop does not exceed its start.
\<close>

definition crop :: "ndarray \<Rightarrow> int \<Rightarrow> int \<Rightarrow> int \<Rightarrow> int \<Rightarrow> ndarray" where
  "crop a y0 y1 x0 x1 =
     (let h = shape a ! 0; w = shape a ! 1; rest = drop 2 (shape a); c = prod_list rest;
          rs = slice_bound h y0; re = slice_bound h y1;
          cs = slice_bound w x0; ce = slice_bound w x1
      in \<lparr>shape = [re - rs, ce - cs] @ rest,
          data = concat (map (\<lambda>r. take ((ce - cs) * c) (drop ((r * w + cs) * c) (data a))) [rs ..< re])\<rparr>)"

text \<open>
  \<open>cv2.warpAffine (src, m, (w, h), borderValue=(0, 0, 0))\<close> returns an array of \<open>h\<close> rows
  and \<open>w\<close> columns with the channels of the source. The value of each element (the
  interpolation) belongs to OpenCV: \<open>sample src m i\<close> is a parameter giving the element
  at position \<open>i\<close> of the result.
\<close>

definition warpAffine ::
  "(ndarray \<Rightarrow> matrix \<Rightarrow> nat \<Rightarrow> 8 word) \<Rightarrow> ndarray \<Rightarrow> matrix \<Rightarrow> nat \<times> nat \<Rightarrow> ndarray" where
  "warpAffine sample src m dsize =
     (case dsize of (w, h) \<Rightarrow>
        let rest = drop 2 (shape src)
        in \<lparr>shape = [h, w] @ rest, data = map (sample src m) [0 ..< h * w * prod_list rest]\<rparr>)"

text \<open>
  \<open>extract_roi\<close>. \<open>cv2.getRotationMatrix2D\<close> is a parameter. An array of fewer than two
  dimensions makes \<open>image.shape[1]\<close> raise \<open>IndexError\<close>.
\<close>

definition extract_roi ::
  "(fpoint \<Rightarrow> real \<Rightarrow> real \<Rightarrow> matrix) \<Rightarrow> (ndarray \<Rightarrow> matrix \<Rightarrow> nat \<Rightarrow> 8 word) \<Rightarrow>
     ndarray \<Rightarrow> rrect \<Rightarrow> error + (ndarray \<times> matrix)" where
  "extract_roi getRotationMatrix2D sample img rect =
     (case rect of (center, (width, height), theta) \<Rightarrow>
        let width = width + width * 0.15;
            height = height + height * 0.15;
            rotation_matrix = getRotationMatrix2D center theta 1
        in if length (shape img) < 2 then Inl IndexError
           else
             let warped_image = warpAffine sample img rotation_matrix (shape img ! 1, shape img ! 0);
                 x = py_int (fst center - py_floordiv width 2);
                 y = py_int (snd center - py_floordiv height 2);
                 roi = crop warped_image y (y + py_int height) x (x + py_int width)
             in Inr (roi, rotation_matrix))"

text \<open>
  The matrix \<open>cv2.getRotationMatrix2D\<close> documents, over the reals; used only to evaluate
  the model at the angle 0, where it is the identity.
\<close>

definition rotation_matrix_2d :: "fpoint \<Rightarrow> real \<Rightarrow> real \<Rightarrow> matrix" where
  "rotation_matrix_2d center angle scale =
     (let a = scale * cos (angle * pi / 180); b = scale * sin (angle * pi / 180)
      in ((a, b, (1 - a) * fst center - b * snd center),
          (- b, a, b * fst center + (1 - a) * snd center)))"

text \<open>
  Two black masks: a 640x480 photograph whose finger lies along the left border, and a
  50x50 one whose finger lies well inside.
\<close>

definition left_edge_mask :: ndarray where
  "left_edge_mask = \<lparr>shape = [480, 640, 3], data = replicate (480 * 640 * 3) 0\<rparr>"

definition small_mask :: ndarray where
  "small_mask = \<lparr>shape = [50, 50, 3], data = replicate (50 * 50 * 3) 0\<rparr>"

text \<open>
  A 100x100 mask and the points of a tilted finger: two pairs of contour points and a
  fingertip between them. Their smallest enclosing rectangle has a side through
  \<open>(70, 40)\<close> and \<open>(38, 64)\<close>: center \<open>(47.58, 43.44)\<close>, width 21.4, height 40, at the angle
  whose cosine is 3/5 and whose sine is 4/5 (53.13 degrees).
\<close>

definition mask100 :: ndarray where
  "mask100 = \<lparr>shape = [100, 100, 3], data = replicate (100 * 100 * 3) 0\<rparr>"

definition tilted_points :: "point list" where
  "tilted_points = [(70, 40), (38, 64), (29, 44), (49, 29), (50, 45)]"

definition tilted_rect :: rrect where
  "tilted_rect = ((2379 / 50, 1086 / 25), (107 / 5, 40), arccos (3 / 5) * 180 / pi)"

text \<open>A point lies within the pixel bounds of an ROI image: \<open>0 \<le> x < width\<close> and \<open>0 \<le> y < height\<close>.\<close>

definition in_roi_bounds :: "ndarray \<Rightarrow> point \<Rightarrow> bool" where
  "in_roi_bounds roi q =
     (0 \<le> fst q \<and> fst q < int (shape roi ! 1) \<and> 0 \<le> snd q \<and> snd q < int (shape roi ! 0))"

section \<open>Per-Finger Pipeline Orchestrator\<close>

text \<open>
  What \<open>process_image\<close> takes from outside \<open>fingers2.py\<close>. The detector, the pixel
  projection and the tables of \<open>landmarks_constants\<close> live in other modules of the
  repository (\<open>utils\<close>, \<open>pixel_finder\<close>); the rest is OpenCV and the segmentation package.
  Each is a field of the record below and every property is proved for all values of the
  fields. A hand is its list of normalised landmarks; \<open>locate_hand_landmarks\<close> returns the
  image and the list of detected hands.
\<close>

type_synonym hand = "(real \<times> real \<times> real) list"

record externals =
  locate_hand_landmarks :: "string \<Rightarrow> ndarray \<times> hand list"
  landmark_to_pixels :: "ndarray \<Rightarrow> hand \<Rightarrow> nat \<Rightarrow> point"
  tip_indices :: "nat list"
  landmarks_per_finger :: "string \<Rightarrow> nat list"
  cv_bgr2gray :: "ndarray \<Rightarrow> ndarray"
  cv_clahe_apply :: "ndarray \<Rightarrow> ndarray"
  cv_merge :: "ndarray \<Rightarrow> ndarray"
  bg_remove :: "ndarray \<Rightarrow> ndarray"
  cv_rgb2gray :: "8 word \<Rightarrow> 8 word \<Rightarrow> 8 word \<Rightarrow> 8 word"
  cv_findContours :: "ndarray \<Rightarrow> point list list"
  cv_contourArea :: "point list \<Rightarrow> real"
  cv_minAreaRect :: "point list \<Rightarrow> rrect"
  cv_getRotationMatrix2D :: "fpoint \<Rightarrow> real \<Rightarrow> real \<Rightarrow> matrix"
  cv_warp_sample :: "ndarray \<Rightarrow> matrix \<Rightarrow> nat \<Rightarrow> 8 word"
  cv_circle :: "ndarray \<Rightarrow> point \<Rightarrow> ndarray"
  cv_copyMakeBorder :: "ndarray \<Rightarrow> nat \<Rightarrow> ndarray"

text \<open>
  The effects of \<open>process_image\<close>: the files \<open>cv2.imwrite\<close> has written, in order, and the
  lines \<open>print\<close> has produced.
\<close>

record world =
  files :: "(string \<times> ndarray) list"
  printed :: "string list"

definition imwrite :: "string \<Rightarrow> ndarray \<Rightarrow> world \<Rightarrow> world" where
  "imwrite path img w = w\<lparr>files := files w @ [(path, img)]\<rparr>"

definition print :: "string \<Rightarrow> world \<Rightarrow> world" where
  "print msg w = w\<lparr>printed := printed w @ [msg]\<rparr>"

text \<open>\<open>os.path.basename\<close> and \<open>os.path.join\<close> of two components, on POSIX paths.\<close>

definition basename :: "string \<Rightarrow> string" where
  "basename p = rev (takeWhile (\<lambda>c. c \<noteq> CHR ''/'') (rev p))"

definition path_join :: "string \<Rightarrow> string \<Rightarrow> string" where
  "path_join a b =
     (if b \<noteq> [] \<and> hd b = CHR ''/'' then b
      else if a = [] \<or> last a = CHR ''/'' then a @ b
      else a @ ''/'' @ b)"

text \<open>Indexing a Python list with a non-negative index; sequencing of steps that may raise.\<close>

definition py_nth :: "'a list \<Rightarrow> nat \<Rightarrow> error + 'a" where
  "py_nth xs i = (if i < length xs then Inr (xs ! i) else Inl IndexError)"

definition and_then :: "error + 'a \<Rightarrow> ('a \<Rightarrow> error + 'b) \<Rightarrow> error + 'b" where
  "and_then m f = (case m of Inl e \<Rightarrow> Inl e | Inr x \<Rightarrow> f x)"

definition landmarks_to_pixel_coordinates :: "externals \<Rightarrow> ndarray \<Rightarrow> hand list \<Rightarrow> error + point list" where
  "landmarks_to_pixel_coordinates ext img hands =
     (let gray = cv_bgr2gray ext img
      in and_then (py_nth hands 0)
           (\<lambda>hand0. Inr (map (\<lambda>idx. landmark_to_pixels ext gray hand0 idx) [0 ..< length hand0])))"

definition increase_contrast :: "externals \<Rightarrow> ndarray \<Rightarrow> ndarray" where
  "increase_contrast ext img =
     (let gray = cv_bgr2gray ext img;
          enhanced = cv_clahe_apply ext gray
      in if shape img \<noteq> [] \<and> last (shape img) = 3 then cv_merge ext enhanced else enhanced)"

text \<open>\<open>cv2.cvtColor (seg_mask, COLOR_GRAY2RGB)\<close>: every value three times.\<close>

definition gray2rgb :: "ndarray \<Rightarrow> ndarray" where
  "gray2rgb m = \<lparr>shape = shape m @ [3], data = concat (map (\<lambda>v. [v, v, v]) (data m))\<rparr>"

text \<open>
  \<open>[item for idx in landmarks_per_finger[key][1:] for item in closest_points[idx]]\<close>
\<close>

fun gather_points :: "(point \<times> point) list \<Rightarrow> nat list \<Rightarrow> error + point list" where
  "gather_points closest_points [] = Inr []"
| "gather_points closest_points (idx # rest) =
     and_then (py_nth closest_points idx)
       (\<lambda>pr. and_then (gather_points closest_points rest)
          (\<lambda>pts. Inr (fst pr # snd pr # pts)))"

text \<open>
  One pass of the loop over the fingers. The rectangle, the warp and the crop are computed
  from \<open>rgb_mask\<close>; the ROI is written when it has at least one element.
\<close>

definition process_finger ::
  "externals \<Rightarrow> point list \<Rightarrow> (point \<times> point) list \<Rightarrow> ndarray \<Rightarrow> string \<Rightarrow> string \<Rightarrow>
     string \<Rightarrow> world \<Rightarrow> error + world" where
  "process_finger ext landmark_pixels closest_points rgb_mask PATH FINGER_OUTPUT_DIR key w =
     and_then (gather_points closest_points (tl (landmarks_per_finger ext key))) (\<lambda>pts.
     and_then (py_nth (landmarks_per_finger ext key) 0) (\<lambda>i0.
     and_then (py_nth landmark_pixels i0) (\<lambda>tip.
       let finger_roi_points = pts @ [tip];
           rect = get_bounding_box (cv_minAreaRect ext) rgb_mask finger_roi_points
       in
     and_then (extract_roi (cv_getRotationMatrix2D ext) (cv_warp_sample ext) rgb_mask rect) (\<lambda>(roi, rotation_matrix).
     and_then (py_nth (landmarks_per_finger ext key) 1) (\<lambda>i1.
     and_then (py_nth landmark_pixels i1) (\<lambda>dip.
     and_then (py_nth (landmarks_per_finger ext key) 2) (\<lambda>i2.
     and_then (py_nth landmark_pixels i2) (\<lambda>pip.
       let rotated_pip = transform_point pip rotation_matrix;
           rotated_dip = transform_point dip rotation_matrix;
           new_pip = adjust_for_roi_crop rotated_pip (fst rect) (fst (snd rect));
           new_dip = adjust_for_roi_crop rotated_dip (fst rect) (fst (snd rect));
           roi = cv_circle ext roi new_pip;
           roi = cv_circle ext roi new_dip;
           OUTPUT_PATH_FINGER = path_join FINGER_OUTPUT_DIR (key @ basename PATH)
       in if array_size roi > 0 then Inr (imwrite OUTPUT_PATH_FINGER roi w)
          else Inr (print (''Warning: The ROI image is empty or None. Skipping save operation for finger ''
                           @ basename OUTPUT_PATH_FINGER @ ''.'') w)))))))))"

text \<open>The loop: an exception in one finger ends it, with the files of the earlier fingers written.\<close>

fun finger_loop ::
  "externals \<Rightarrow> point list \<Rightarrow> (point \<times> point) list \<Rightarrow> ndarray \<Rightarrow> string \<Rightarrow> string \<Rightarrow>
     string list \<Rightarrow> world \<Rightarrow> error option \<times> world" where
  "finger_loop ext landmark_pixels closest_points rgb_mask PATH FINGER_OUTPUT_DIR [] w = (None, w)"
| "finger_loop ext landmark_pixels closest_points rgb_mask PATH FINGER_OUTPUT_DIR (key # keys) w =
     (case process_finger ext landmark_pixels closest_points rgb_mask PATH FINGER_OUTPUT_DIR key w of
        Inl e \<Rightarrow> (Some e, w)
      | Inr w' \<Rightarrow> finger_loop ext landmark_pixels closest_points rgb_mask PATH FINGER_OUTPUT_DIR keys w')"

text \<open>
  \<open>process_image\<close>. The result is the exception that ended the call, if any, and the
  world after it. The padded image is bound to \<open>img\<close> again, as in the source, and nothing
  after that line reads it.
\<close>

definition process_image ::
  "externals \<Rightarrow> string \<Rightarrow> string \<Rightarrow> string \<Rightarrow> string \<Rightarrow> world \<Rightarrow> error option \<times> world" where
  "process_image ext PATH MASKS_OUTPUT_DIR FINGER_OUTPUT_DIR NAIL_OUTPUT_DIR w =
     (case locate_hand_landmarks ext PATH of (img, landmarks) \<Rightarrow>
        let padding = 200 in
        if landmarks = []
        then (None, print (''Warning: No landmarks detected for '' @ basename PATH
                           @ ''. Skipping save operation.'') w)
        else
          case landmarks_to_pixel_coordinates ext img landmarks of
            Inl e \<Rightarrow> (Some e, w)
          | Inr landmark_pixels \<Rightarrow>
              let enhanced_image = increase_contrast ext img;
                  result = bg_remove ext enhanced_image
              in case get_segmentation_mask (cv_rgb2gray ext) result 11 of
                   Inl e \<Rightarrow> (Some e, w)
                 | Inr seg_mask \<Rightarrow>
                     (case extract_contour (cv_findContours ext) (cv_contourArea ext) seg_mask of
                        Inl e \<Rightarrow> (Some e, w)
                      | Inr cnt \<Rightarrow>
                          let rgb_mask = gray2rgb seg_mask
                          in case closest_contour_point (tip_indices ext) landmark_pixels cnt of
                               Inl e \<Rightarrow> (Some e, w)
                             | Inr closest_points \<Rightarrow>
                                 let img = cv_copyMakeBorder ext img padding
                                 in case finger_loop ext landmark_pixels closest_points rgb_mask
                                           PATH FINGER_OUTPUT_DIR
                                           [''INDEX'', ''MIDDLE'', ''RING'', ''PINKY''] w of
                                      (Some e, w') \<Rightarrow> (Some e, w')
                                    | (None, w') \<Rightarrow>
                                        (None, imwrite (path_join MASKS_OUTPUT_DIR (''seg_'' @ basename PATH))
                                                 rgb_mask w')))"

section \<open>Facts about truncation\<close>

lemma py_int_mono: "x \<le> y \<Longrightarrow> py_int x \<le> py_int y"
proof -
  assume le: "x \<le> y"
  have "\<lfloor>x\<rfloor> \<le> \<lfloor>y\<rfloor>" using le by linarith
  moreover have "\<lceil>x\<rceil> \<le> \<lceil>y\<rceil>" using le by linarith
  moreover have "x < 0 \<Longrightarrow> 0 \<le> y \<Longrightarrow> \<lceil>x\<rceil> \<le> \<lfloor>y\<rfloor>"
  proof -
    assume "x < 0" "0 \<le> y"
    then have "\<lceil>x\<rceil> \<le> 0" "0 \<le> \<lfloor>y\<rfloor>" by (simp_all add: ceiling_le_iff)
    then show "\<lceil>x\<rceil> \<le> \<lfloor>y\<rfloor>" by (rule order_trans)
  qed
  ultimately show ?thesis unfolding py_int_def using le by auto
qed

lemma py_int_le_succ:
  assumes "y < x + 1"
  shows "py_int y \<le> py_int x + 1"
proof -
  have "\<lfloor>y\<rfloor> \<le> \<lfloor>x\<rfloor> + 1" using assms by linarith
  moreover have "\<lceil>y\<rceil> \<le> \<lceil>x\<rceil> + 1" using assms by linarith
  moreover have "\<lfloor>y\<rfloor> \<le> \<lceil>x\<rceil> + 1" using assms by linarith
  moreover have "y < 0 \<Longrightarrow> 0 \<le> x \<Longrightarrow> \<lceil>y\<rceil> \<le> \<lfloor>x\<rfloor> + 1" by linarith
  ultimately show ?thesis unfolding py_int_def by auto
qed

lemma floor_half_bounds: "s / 2 - 1 < of_int \<lfloor>s / 2 :: real\<rfloor> \<and> of_int \<lfloor>s / 2 :: real\<rfloor> \<le> s / 2"
  by linarith

text \<open>
  Claim C2, as amended. \<open>adjust_for_roi_crop\<close> subtracts, in each coordinate, the
  truncation of \<open>center - floor (size / 2)\<close>: the half size is floored before the
  subtraction. That offset is never below the one the specification words
  (\<open>int (center - size / 2)\<close>) and exceeds it by at most one.
\<close>

theorem adjust_for_roi_crop_floor_half:
  "adjust_for_roi_crop p c s =
     (fst p - py_int (fst c - of_int \<lfloor>fst s / 2\<rfloor>), snd p - py_int (snd c - of_int \<lfloor>snd s / 2\<rfloor>))
   \<and> spec_crop_offset (fst c) (fst s) \<le> py_int (fst c - of_int \<lfloor>fst s / 2\<rfloor>)
   \<and> py_int (fst c - of_int \<lfloor>fst s / 2\<rfloor>) \<le> spec_crop_offset (fst c) (fst s) + 1
   \<and> spec_crop_offset (snd c) (snd s) \<le> py_int (snd c - of_int \<lfloor>snd s / 2\<rfloor>)
   \<and> py_int (snd c - of_int \<lfloor>snd s / 2\<rfloor>) \<le> spec_crop_offset (snd c) (snd s) + 1"
proof -
  have eq: "adjust_for_roi_crop p c s =
     (fst p - py_int (fst c - of_int \<lfloor>fst s / 2\<rfloor>), snd p - py_int (snd c - of_int \<lfloor>snd s / 2\<rfloor>))"
    by (simp add: adjust_for_roi_crop_def py_floordiv_def Let_def)
  have lo: "spec_crop_offset a b \<le> py_int (a - of_int \<lfloor>b / 2\<rfloor>)" for a b :: real
    unfolding spec_crop_offset_def using floor_half_bounds [of b]
    by (intro py_int_mono) linarith
  have hi: "py_int (a - of_int \<lfloor>b / 2\<rfloor>) \<le> spec_crop_offset a b + 1" for a b :: real
    unfolding spec_crop_offset_def using floor_half_bounds [of b]
    by (intro py_int_le_succ) linarith
  show ?thesis using eq lo hi by simp
qed

text \<open>
  Claim C2 as stated fails: with center 10 and size 5 in both coordinates the code's
  offset is \<open>int (10 - 2) = 8\<close>, the stated one is \<open>int (10 - 2.5) = 7\<close>.
\<close>

theorem adjust_for_roi_crop_not_half:
  "adjust_for_roi_crop (0, 0) (10, 10) (5, 5) = (-8, -8)
   \<and> spec_adjust_for_roi_crop (0, 0) (10, 10) (5, 5) = (-7, -7)"
  by (simp add: adjust_for_roi_crop_def spec_adjust_for_roi_crop_def spec_crop_offset_def
      py_floordiv_def py_int_def Let_def)

section \<open>The mask\<close>

lemma gray_data_length: "length (gray_data f xs) = length xs div 3"
  by (induction f xs rule: gray_data.induct) simp_all

lemma gray_data_nth:
  "i < length xs div 3 \<Longrightarrow>
     gray_data f xs ! i = f (xs ! (3 * i)) (xs ! (3 * i + 1)) (xs ! (3 * i + 2))"
proof (induction f xs arbitrary: i rule: gray_data.induct)
  case (1 f r g b rest)
  show ?case
  proof (cases i)
    case 0
    then show ?thesis by simp
  next
    case (Suc j)
    with "1.prems" have "j < length rest div 3" by simp
    from "1.IH" [OF this] Suc show ?thesis by (simp add: numeral_3_eq_3)
  qed
qed simp_all

lemma pixel_index_less: "y < h \<Longrightarrow> x < w \<Longrightarrow> y * w + x < h * (w :: nat)"
proof -
  assume "y < h" "x < w"
  then have "y * w + x < (y + 1) * w" by (simp add: algebra_simps)
  moreover have "(y + 1) * w \<le> h * w" using \<open>y < h\<close> by (intro mult_le_mono1) simp
  ultimately show ?thesis by (rule less_le_trans)
qed

text \<open>
  Claim C4. For an image of shape \<open>[h, w, 3]\<close> with at least one pixel the mask has shape
  \<open>[h, w]\<close>, one element per pixel, and the element at row \<open>y\<close>, column \<open>x\<close> is 255 when the
  grayscale intensity of the input pixel at \<open>(y, x)\<close> is strictly above the threshold and 0
  otherwise. An array without rows or columns holds no pixel and is refused by OpenCV's
  conversion.
\<close>

theorem get_segmentation_mask_binary:
  assumes "shape img = [h, w, 3]" and "length (data img) = h * w * 3"
  shows "if h = 0 \<or> w = 0 then get_segmentation_mask rgb2gray img t = Inl CvError
         else (\<exists>m. get_segmentation_mask rgb2gray img t = Inr m
           \<and> shape m = [h, w] \<and> length (data m) = h * w
           \<and> (\<forall>y x. y < h \<and> x < w \<longrightarrow>
                 data m ! (y * w + x) =
                   (if t < uint (rgb2gray (data img ! (3 * (y * w + x)))
                                         (data img ! (3 * (y * w + x) + 1))
                                         (data img ! (3 * (y * w + x) + 2)))
                    then 255 else 0))
           \<and> set (data m) \<subseteq> {0, 255})"
proof (cases "h = 0 \<or> w = 0")
  case True
  then have "get_segmentation_mask rgb2gray img t = Inl CvError"
    using assms(1) by (auto simp add: get_segmentation_mask_def cvtColor_RGB2GRAY_def)
  with True show ?thesis by simp
next
  case False
  let ?g = "gray_data rgb2gray (data img)"
  let ?m = "\<lparr>shape = [h, w], data = map (\<lambda>g. word_of_int (if t < uint g then 255 else 0)) ?g\<rparr>"
  have run: "get_segmentation_mask rgb2gray img t = Inr ?m"
    using assms(1) False by (simp add: get_segmentation_mask_def cvtColor_RGB2GRAY_def Let_def)
  have len: "length ?g = h * w"
    using assms(2) by (simp add: gray_data_length)
  have px: "data ?m ! (y * w + x) =
      (if t < uint (rgb2gray (data img ! (3 * (y * w + x)))
                             (data img ! (3 * (y * w + x) + 1))
                             (data img ! (3 * (y * w + x) + 2)))
       then 255 else 0)" if "y < h" "x < w" for y x
  proof -
    have i: "y * w + x < length (data img) div 3"
      using pixel_index_less [OF that] assms(2) by simp
    then have "y * w + x < length ?g" by (simp add: gray_data_length)
    then show ?thesis using gray_data_nth [OF i, of rgb2gray] by simp
  qed
  have vals: "set (data ?m) \<subseteq> {0, 255}" by (auto split: if_splits)
  have "\<exists>m. get_segmentation_mask rgb2gray img t = Inr m
           \<and> shape m = [h, w] \<and> length (data m) = h * w
           \<and> (\<forall>y x. y < h \<and> x < w \<longrightarrow>
                 data m ! (y * w + x) =
                   (if t < uint (rgb2gray (data img ! (3 * (y * w + x)))
                                         (data img ! (3 * (y * w + x) + 1))
                                         (data img ! (3 * (y * w + x) + 2)))
                    then 255 else 0))
           \<and> set (data m) \<subseteq> {0, 255}"
    using run len px vals by (intro exI [of _ ?m]) simp
  with False show ?thesis by simp
qed

theorem get_segmentation_mask_binary_witness:
  "get_segmentation_mask bt601 two_pixels 11 = Inr \<lparr>shape = [1, 2], data = [0, 255]\<rparr>"
proof -
  have sh: "shape two_pixels = [1, 2, 3]" and ln: "length (data two_pixels) = 1 * 2 * 3"
    by (simp_all add: two_pixels_def)
  from get_segmentation_mask_binary [OF sh ln, of bt601 11]
  have "\<exists>m. get_segmentation_mask bt601 two_pixels 11 = Inr m
           \<and> shape m = [1, 2] \<and> length (data m) = 1 * 2
           \<and> (\<forall>y x. y < 1 \<and> x < 2 \<longrightarrow>
                 data m ! (y * 2 + x) =
                   (if 11 < uint (bt601 (data two_pixels ! (3 * (y * 2 + x)))
                                         (data two_pixels ! (3 * (y * 2 + x) + 1))
                                         (data two_pixels ! (3 * (y * 2 + x) + 2)))
                    then 255 else 0))
           \<and> set (data m) \<subseteq> {0, 255}"
    by simp
  then obtain m where m: "get_segmentation_mask bt601 two_pixels 11 = Inr m"
    and s: "shape m = [1, 2]" and l: "length (data m) = 1 * 2"
    and px: "\<forall>y x. y < 1 \<and> x < 2 \<longrightarrow>
                 data m ! (y * 2 + x) =
                   (if 11 < uint (bt601 (data two_pixels ! (3 * (y * 2 + x)))
                                         (data two_pixels ! (3 * (y * 2 + x) + 1))
                                         (data two_pixels ! (3 * (y * 2 + x) + 2)))
                    then 255 else 0)"
    by blast
  from px [rule_format, of 0 0] have p0: "data m ! 0 = 0"
    by (simp add: two_pixels_def bt601_def)
  from px [rule_format, of 0 1] have p1: "data m ! 1 = 255"
    by (simp add: two_pixels_def bt601_def)
  from l obtain a b where ab: "data m = [a, b]"
    by (cases "data m"; cases "tl (data m)"; cases "tl (tl (data m))") auto
  with p0 p1 have "data m = [0, 255]" by simp
  with s have "m = \<lparr>shape = [1, 2], data = [0, 255]\<rparr>" by simp
  with m show ?thesis by simp
qed




section \<open>The nearest contour points\<close>

lemma argmin_from_first_min:
  assumes "length pre = i" and "best < i" and "pre ! best = bv"
    and "\<forall>j < i. bv \<le> pre ! j" and "\<forall>j < best. bv < pre ! j"
  shows "argmin_from best bv i ds < length (pre @ ds)
     \<and> (\<forall>j < length (pre @ ds). (pre @ ds) ! argmin_from best bv i ds \<le> (pre @ ds) ! j)
     \<and> (\<forall>j < argmin_from best bv i ds. (pre @ ds) ! argmin_from best bv i ds < (pre @ ds) ! j)"
  using assms
proof (induction ds arbitrary: best bv i pre)
  case Nil
  then show ?case by simp
next
  case (Cons d ds)
  show ?case
  proof (cases "d < bv")
    case True
    have "argmin_from i d (Suc i) ds < length ((pre @ [d]) @ ds)
     \<and> (\<forall>j < length ((pre @ [d]) @ ds).
           ((pre @ [d]) @ ds) ! argmin_from i d (Suc i) ds \<le> ((pre @ [d]) @ ds) ! j)
     \<and> (\<forall>j < argmin_from i d (Suc i) ds.
           ((pre @ [d]) @ ds) ! argmin_from i d (Suc i) ds < ((pre @ [d]) @ ds) ! j)"
    proof (rule Cons.IH)
      show "length (pre @ [d]) = Suc i" using Cons.prems(1) by simp
      show "i < Suc i" by simp
      show "(pre @ [d]) ! i = d" using Cons.prems(1) by (auto simp: nth_append)
      show "\<forall>j < Suc i. d \<le> (pre @ [d]) ! j"
        using Cons.prems(1,4) True by (auto simp: nth_append less_Suc_eq intro: less_imp_le order_trans)
      show "\<forall>j < i. d < (pre @ [d]) ! j"
        using Cons.prems(1,4) True by (auto simp: nth_append intro: less_le_trans)
    qed
    with True show ?thesis by simp
  next
    case False
    have "argmin_from best bv (Suc i) ds < length ((pre @ [d]) @ ds)
     \<and> (\<forall>j < length ((pre @ [d]) @ ds).
           ((pre @ [d]) @ ds) ! argmin_from best bv (Suc i) ds \<le> ((pre @ [d]) @ ds) ! j)
     \<and> (\<forall>j < argmin_from best bv (Suc i) ds.
           ((pre @ [d]) @ ds) ! argmin_from best bv (Suc i) ds < ((pre @ [d]) @ ds) ! j)"
    proof (rule Cons.IH)
      show "length (pre @ [d]) = Suc i" using Cons.prems(1) by simp
      show "best < Suc i" using Cons.prems(2) by simp
      show "(pre @ [d]) ! best = bv" using Cons.prems(1,2,3) by (simp add: nth_append)
      show "\<forall>j < Suc i. bv \<le> (pre @ [d]) ! j"
        using Cons.prems(1,4) False by (auto simp: nth_append less_Suc_eq)
      show "\<forall>j < best. bv < (pre @ [d]) ! j"
        using Cons.prems(1,2,5) by (auto simp: nth_append)
    qed
    with False show ?thesis by simp
  qed
qed

lemma argmin_first_min:
  assumes "ds \<noteq> []"
  shows "\<exists>k. argmin ds = Inr k \<and> k < length ds
           \<and> (\<forall>j < length ds. ds ! k \<le> ds ! j) \<and> (\<forall>j < k. ds ! k < ds ! j)"
proof -
  from assms obtain d rest where ds: "ds = d # rest" by (cases ds) auto
  have "argmin_from 0 d 1 rest < length ([d] @ rest)
     \<and> (\<forall>j < length ([d] @ rest). ([d] @ rest) ! argmin_from 0 d 1 rest \<le> ([d] @ rest) ! j)
     \<and> (\<forall>j < argmin_from 0 d 1 rest. ([d] @ rest) ! argmin_from 0 d 1 rest < ([d] @ rest) ! j)"
    by (rule argmin_from_first_min) simp_all
  then show ?thesis by (simp add: ds argmin_def)
qed

lemma nearest_of_argmin:
  assumes "s \<noteq> []"
  shows "\<exists>k. argmin (distances s lm) = Inr k \<and> first_nearest lm s (s ! k)"
proof -
  have ne: "distances s lm \<noteq> []" using assms by (simp add: distances_def)
  from argmin_first_min [OF ne] obtain k where k: "argmin (distances s lm) = Inr k"
    and kl: "k < length (distances s lm)"
    and mn: "\<forall>j < length (distances s lm). distances s lm ! k \<le> distances s lm ! j"
    and fs: "\<forall>j < k. distances s lm ! k < distances s lm ! j"
    by blast
  have len: "length (distances s lm) = length s" by (simp add: distances_def)
  have d: "distances s lm ! j = euclid lm (s ! j)" if "j < length s" for j
    using that by (simp add: distances_def euclid_def)
  have "first_nearest lm s (s ! k)"
    unfolding first_nearest_def
  proof (intro exI [of _ k] conjI allI impI)
    show "k < length s" using kl len by simp
    show "s ! k = s ! k" by simp
    show "euclid lm (s ! k) \<le> euclid lm (s ! j)" if "j < length s" for j
      using mn that kl len d by auto
    show "euclid lm (s ! k) < euclid lm (s ! j)" if "j < k" for j
      using fs that kl len d by auto
  qed
  with k show ?thesis by blast
qed

lemma or_whole_nonempty: "c \<noteq> [] \<Longrightarrow> or_whole sub c \<noteq> []"
  by (simp add: or_whole_def)

lemma closest_pair_nearest:
  assumes "c \<noteq> []"
  shows "\<exists>l r. closest_pair tips ctr lm c = Inr (l, r)
           \<and> first_nearest lm (or_whole (left_subset tips ctr lm c) c) l
           \<and> first_nearest lm (or_whole (right_subset tips ctr lm c) c) r"
proof -
  let ?L = "or_whole (left_subset tips ctr lm c) c"
  let ?R = "or_whole (right_subset tips ctr lm c) c"
  from nearest_of_argmin [OF or_whole_nonempty [OF assms], of "left_subset tips ctr lm c" lm]
  obtain kl where kl: "argmin (distances ?L lm) = Inr kl" "first_nearest lm ?L (?L ! kl)"
    by blast
  from nearest_of_argmin [OF or_whole_nonempty [OF assms], of "right_subset tips ctr lm c" lm]
  obtain kr where kr: "argmin (distances ?R lm) = Inr kr" "first_nearest lm ?R (?R ! kr)"
    by blast
  have "closest_pair tips ctr lm c =
      (case argmin (distances ?L lm) of
         Inl e \<Rightarrow> Inl e
       | Inr li \<Rightarrow> (case argmin (distances ?R lm) of
                      Inl e \<Rightarrow> Inl e
                    | Inr ri \<Rightarrow> Inr (?L ! li, ?R ! ri)))"
    by (simp add: closest_pair_def or_whole_def left_subset_def right_subset_def Let_def
        cong: sum.case_cong)
  with kl kr show ?thesis by simp
qed

lemma closest_loop_nearest:
  assumes "c \<noteq> []"
  shows "\<exists>prs. closest_loop tips ctr lms c = Inr prs \<and> length prs = length lms
           \<and> (\<forall>i < length lms.
                 first_nearest (lms ! i) (or_whole (left_subset tips (ctr + i) (lms ! i) c) c) (fst (prs ! i))
               \<and> first_nearest (lms ! i) (or_whole (right_subset tips (ctr + i) (lms ! i) c) c) (snd (prs ! i)))"
proof (induction lms arbitrary: ctr)
  case Nil
  then show ?case by simp
next
  case (Cons lm lms)
  from closest_pair_nearest [OF assms, of tips ctr lm]
  obtain l r where lr: "closest_pair tips ctr lm c = Inr (l, r)"
    "first_nearest lm (or_whole (left_subset tips ctr lm c) c) l"
    "first_nearest lm (or_whole (right_subset tips ctr lm c) c) r"
    by blast
  from Cons.IH [of "Suc ctr"]
  obtain prs where prs: "closest_loop tips (Suc ctr) lms c = Inr prs" "length prs = length lms"
    "\<forall>i < length lms.
        first_nearest (lms ! i) (or_whole (left_subset tips (Suc ctr + i) (lms ! i) c) c) (fst (prs ! i))
      \<and> first_nearest (lms ! i) (or_whole (right_subset tips (Suc ctr + i) (lms ! i) c) c) (snd (prs ! i))"
    by blast
  have run: "closest_loop tips ctr (lm # lms) c = Inr ((l, r) # prs)"
    using lr(1) prs(1) by simp
  have each: "first_nearest ((lm # lms) ! i)
        (or_whole (left_subset tips (ctr + i) ((lm # lms) ! i) c) c) (fst (((l, r) # prs) ! i))
      \<and> first_nearest ((lm # lms) ! i)
        (or_whole (right_subset tips (ctr + i) ((lm # lms) ! i) c) c) (snd (((l, r) # prs) ! i))"
    if "i < length (lm # lms)" for i
  proof (cases i)
    case 0
    with lr show ?thesis by simp
  next
    case (Suc j)
    with that have "j < length lms" by simp
    with prs(3) Suc show ?thesis by simp
  qed
  show ?case using run prs(2) each by (intro exI [of _ "(l, r) # prs"]) simp
qed

text \<open>
  Claim C3. On a non-empty contour \<open>closest_contour_point\<close> returns one pair per
  landmark, in the order of the landmarks. For landmark \<open>i\<close> the left point is taken from
  the contour points with \<open>x \<le> landmark.x\<close> (and \<open>y \<ge> landmark.y\<close> when \<open>i\<close> is one of the tip
  indices), the right point from those with \<open>x > landmark.x\<close> (and the same restriction on
  \<open>y\<close>); an empty subset is replaced by the whole contour; and each returned point is the
  first point of its subset at minimal Euclidean distance from the landmark.
\<close>

theorem closest_contour_point_nearest:
  assumes "c \<noteq> []"
  shows "\<exists>prs. closest_contour_point tips lms (Pts c) = Inr prs \<and> length prs = length lms
           \<and> (\<forall>i < length lms.
                 first_nearest (lms ! i) (or_whole (left_subset tips i (lms ! i) c) c) (fst (prs ! i))
               \<and> first_nearest (lms ! i) (or_whole (right_subset tips i (lms ! i) c) c) (snd (prs ! i)))"
  using closest_loop_nearest [OF assms, of tips 0 lms] by (simp add: closest_contour_point_def)

lemma closest_contour_point_square:
  "closest_contour_point mediapipe_tips five_landmarks (Pts square_contour) =
     Inr [((0, 0), (4, 0)), ((0, 4), (4, 4)), ((0, 0), (4, 0)), ((0, 0), (4, 0)), ((0, 4), (4, 4))]"
  by (simp add: closest_contour_point_def closest_pair_def argmin_def distances_def
      square_contour_def five_landmarks_def mediapipe_tips_def Let_def)

theorem closest_contour_point_nearest_witness:
  "\<exists>prs. closest_contour_point mediapipe_tips five_landmarks (Pts square_contour) = Inr prs
      \<and> length prs = 5
      \<and> first_nearest (2, 1) [(0, 4)] (fst (prs ! 4))
      \<and> first_nearest (2, 1) [(4, 4)] (snd (prs ! 4))"
proof -
  have ne: "square_contour \<noteq> []" by (simp add: square_contour_def)
  from closest_contour_point_nearest [OF ne, of mediapipe_tips five_landmarks]
  obtain prs where run: "closest_contour_point mediapipe_tips five_landmarks (Pts square_contour) = Inr prs"
    and len: "length prs = length five_landmarks"
    and each: "\<forall>i < length five_landmarks.
        first_nearest (five_landmarks ! i)
          (or_whole (left_subset mediapipe_tips i (five_landmarks ! i) square_contour) square_contour)
          (fst (prs ! i))
      \<and> first_nearest (five_landmarks ! i)
          (or_whole (right_subset mediapipe_tips i (five_landmarks ! i) square_contour) square_contour)
          (snd (prs ! i))"
    by blast
  have four: "4 < length five_landmarks" by (simp add: five_landmarks_def)
  from each [rule_format, OF four]
  have "first_nearest (2, 1) [(0, 4)] (fst (prs ! 4)) \<and> first_nearest (2, 1) [(4, 4)] (snd (prs ! 4))"
    by (simp add: five_landmarks_def square_contour_def mediapipe_tips_def
        left_subset_def right_subset_def or_whole_def)
  with run len show ?thesis by (auto simp: five_landmarks_def)
qed

section \<open>The largest contour\<close>

lemma sort_key_first_least:
  assumes "xs \<noteq> []"
  shows "sort_key f xs ! 0 \<in> set xs \<and> (\<forall>y \<in> set xs. f (sort_key f xs ! 0) \<le> f y)"
proof -
  let ?s = "sort_key f xs"
  have ne: "?s \<noteq> []" using assms by (metis length_sort list.size(3) length_0_conv)
  then obtain z zs where s: "?s = z # zs" by (cases ?s) auto
  have "sorted (map f ?s)" by (rule sorted_sort_key)
  then have le: "\<forall>y \<in> set zs. f z \<le> f y" by (simp add: s)
  have "set ?s = set xs" by simp
  then have st: "set xs = insert z (set zs)" by (simp add: s)
  show ?thesis using le st by (simp add: s)
qed

text \<open>
  Claim C5. \<open>extract_contour\<close> raises its \<open>ValueError\<close> exactly when \<open>cv2.findContours\<close>
  returns no contour, and it raises nothing else. Otherwise it returns one of the
  contours found, squeezed, and no contour found has a larger area.
\<close>

theorem extract_contour_largest:
  "((\<exists>e. extract_contour findContours contourArea img = Inl e) = (findContours img = []))
   \<and> (findContours img = [] \<longrightarrow>
         extract_contour findContours contourArea img = Inl (ValueError ''No contours found in the image''))
   \<and> (findContours img \<noteq> [] \<longrightarrow>
         (\<exists>c \<in> set (findContours img).
             extract_contour findContours contourArea img = Inr (squeeze c)
             \<and> (\<forall>c' \<in> set (findContours img). contourArea c' \<le> contourArea c)))"
proof (cases "findContours img = []")
  case True
  then show ?thesis by (simp add: extract_contour_def)
next
  case False
  let ?c = "sort_key (\<lambda>c. - contourArea c) (findContours img) ! 0"
  from sort_key_first_least [OF False, of "\<lambda>c. - contourArea c"]
  have mem: "?c \<in> set (findContours img)"
    and mx: "\<forall>c' \<in> set (findContours img). contourArea c' \<le> contourArea ?c"
    by simp_all
  have run: "extract_contour findContours contourArea img = Inr (squeeze ?c)"
    using False by (simp add: extract_contour_def Let_def)
  show ?thesis using False run mem mx by auto
qed

theorem extract_contour_largest_witness:
  "extract_contour (\<lambda>_. three_contours) polygon_area two_pixels
     = Inr (Pts [(0, 0), (4, 0), (4, 4), (0, 4)])
   \<and> extract_contour (\<lambda>_. []) polygon_area two_pixels
     = Inl (ValueError ''No contours found in the image'')"
proof -
  have ne: "(\<lambda>_. three_contours) two_pixels \<noteq> []" by (simp add: three_contours_def)
  from extract_contour_largest [of "\<lambda>_. three_contours" polygon_area two_pixels] ne
  obtain c where c: "c \<in> set three_contours"
    and run: "extract_contour (\<lambda>_. three_contours) polygon_area two_pixels = Inr (squeeze c)"
    and mx: "\<forall>c' \<in> set three_contours. polygon_area c' \<le> polygon_area c"
    by blast
  from mx have "polygon_area [(0, 0), (4, 0), (4, 4), (0, 4)] \<le> polygon_area c"
    by (simp add: three_contours_def)
  with c have "c = [(0, 0), (4, 0), (4, 4), (0, 4)]"
    by (auto simp: three_contours_def polygon_area_def)
  with run have first: "extract_contour (\<lambda>_. three_contours) polygon_area two_pixels
     = Inr (Pts [(0, 0), (4, 0), (4, 4), (0, 4)])"
    by (simp add: squeeze_def)
  from extract_contour_largest [of "\<lambda>_. []" polygon_area two_pixels]
  have "extract_contour (\<lambda>_. []) polygon_area two_pixels
     = Inl (ValueError ''No contours found in the image'')"
    by simp
  with first show ?thesis by simp
qed

section \<open>The portrait rectangle\<close>

text \<open>
  Claim C6. The rectangle \<open>get_bounding_box\<close> returns has width at most height. When
  the rectangle of \<open>cv2.minAreaRect\<close> has width above height, the result has the two
  sides exchanged and the angle lowered by 90, with the same center; otherwise the
  result is that rectangle unchanged.
\<close>

theorem get_bounding_box_portrait:
  "(case get_bounding_box minAreaRect img points of
      (center, (width, height), theta) \<Rightarrow> width \<le> height)
   \<and> (case minAreaRect points of
        (center, (width, height), theta) \<Rightarrow>
          (width > height \<longrightarrow>
             get_bounding_box minAreaRect img points = (center, (height, width), theta - 90))
        \<and> (\<not> width > height \<longrightarrow>
             get_bounding_box minAreaRect img points = (center, (width, height), theta)))"
  by (auto simp add: get_bounding_box_def Let_def split: prod.splits)

theorem get_bounding_box_portrait_witness:
  "get_bounding_box (\<lambda>_. ((21 / 2, 261 / 2), (63, 21), 90)) two_pixels [(0, 99), (21, 99), (0, 162), (21, 162)]
     = ((21 / 2, 261 / 2), (21, 63), 0)
   \<and> get_bounding_box (\<lambda>_. ((21 / 2, 261 / 2), (21, 63), 0)) two_pixels [(0, 99), (21, 99), (0, 162), (21, 162)]
     = ((21 / 2, 261 / 2), (21, 63), 0)"
  using get_bounding_box_portrait [of "\<lambda>_. ((21 / 2, 261 / 2), (63, 21), 90)" two_pixels
      "[(0, 99), (21, 99), (0, 162), (21, 162)]"]
    get_bounding_box_portrait [of "\<lambda>_. ((21 / 2, 261 / 2), (21, 63), 0)" two_pixels
      "[(0, 99), (21, 99), (0, 162), (21, 162)]"]
  by simp

section \<open>The crop of the ROI\<close>

lemma shape_crop:
  "shape a = h # w # rest \<Longrightarrow>
     shape (crop a y0 y1 x0 x1) =
       [slice_bound h y1 - slice_bound h y0, slice_bound w x1 - slice_bound w x0] @ rest"
  by (simp add: crop_def Let_def)

lemma shape_warpAffine: "shape (warpAffine sample src m (w, h)) = [h, w] @ drop 2 (shape src)"
  by (simp add: warpAffine_def Let_def)

lemma extract_roi_shape:
  assumes "shape img = h # w # rest"
  shows "\<exists>roi. extract_roi getRot sample img (center, (width, height), theta)
            = Inr (roi, getRot center theta 1)
     \<and> shape roi =
        [slice_bound h (py_int (snd center - py_floordiv (height + height * 0.15) 2)
                          + py_int (height + height * 0.15))
           - slice_bound h (py_int (snd center - py_floordiv (height + height * 0.15) 2)),
         slice_bound w (py_int (fst center - py_floordiv (width + width * 0.15) 2)
                          + py_int (width + width * 0.15))
           - slice_bound w (py_int (fst center - py_floordiv (width + width * 0.15) 2))] @ rest"
  using assms
  by (simp add: extract_roi_def Let_def shape_crop [where h = h and w = w and rest = rest]
      shape_warpAffine)

lemma shape_left_edge_mask: "shape left_edge_mask = [480, 640, 3]"
  unfolding left_edge_mask_def by (simp only: ndarray.simps)

lemma shape_small_mask: "shape small_mask = [50, 50, 3]"
  unfolding small_mask_def by (simp only: ndarray.simps)

lemma extract_roi_left_edge:
  "\<exists>roi. extract_roi getRot sample left_edge_mask ((21 / 2, 261 / 2), (21, 63), theta)
            = Inr (roi, getRot (21 / 2, 261 / 2) theta 1)
     \<and> shape roi = [72, 0, 3]"
  using extract_roi_shape [OF shape_left_edge_mask, of getRot sample "(21 / 2, 261 / 2)" 21 63 theta]
  by (simp add: py_int_def py_floordiv_def slice_bound_def ceiling_minus)

lemma extract_roi_inside:
  "\<exists>roi. extract_roi rotation_matrix_2d sample small_mask ((19 / 2, 61 / 2), (5, 21), 0)
            = Inr (roi, ((1, 0, 0), (0, 1, 0)))
     \<and> shape roi = [24, 5, 3]"
  using extract_roi_shape [OF shape_small_mask, of rotation_matrix_2d sample "(19 / 2, 61 / 2)" 5 21 0]
  by (simp add: py_int_def py_floordiv_def slice_bound_def rotation_matrix_2d_def)

lemma roundtrip_inside:
  "adjust_for_roi_crop (transform_point (12, 20) ((1, 0, 0), (0, 1, 0))) (19 / 2, 61 / 2) (5, 21) = (5, 0)"
  by (simp add: adjust_for_roi_crop_def transform_point_def py_int_def py_floordiv_def Let_def)

text \<open>
  Claim C10. There are an image and a rectangle of positive area lying inside the image
  (here upright, spanning columns 0 to 21 and rows 99 to 162 of a 640x480 image) for which
  the column offset of the crop is negative and \<open>extract_roi\<close> returns an empty ROI: the
  offset is \<open>int (10.5 - 24.15 // 2) = int (-1.5) = -1\<close>, the slice \<open>[-1:23]\<close> starts at column 639 and
  stops at column 23.
\<close>

theorem extract_roi_negative_offset:
  "\<exists>img center width height theta.
      0 < width \<and> 0 < height
    \<and> shape img = [480, 640, 3]
    \<and> theta = 0
    \<and> 0 \<le> fst center - width / 2 \<and> fst center + width / 2 \<le> 640
    \<and> 0 \<le> snd center - height / 2 \<and> snd center + height / 2 \<le> 480
    \<and> py_int (fst center - py_floordiv (width + width * 0.15) 2) < 0
    \<and> (\<exists>roi m. extract_roi getRot sample img (center, (width, height), theta) = Inr (roi, m)
          \<and> array_size roi = 0)"
proof -
  from extract_roi_left_edge [of getRot sample 0]
  obtain roi where roi: "extract_roi getRot sample left_edge_mask ((21 / 2, 261 / 2), (21, 63), 0)
            = Inr (roi, getRot (21 / 2, 261 / 2) 0 1)" "shape roi = [72, 0, 3]"
    by blast
  have off: "py_int (21 / 2 - py_floordiv (21 + 21 * 0.15) 2) < 0"
    by (simp add: py_int_def py_floordiv_def)
  have sz: "array_size roi = 0" using roi(2) by (simp add: array_size_def)
  have inner: "\<exists>roi m. extract_roi getRot sample left_edge_mask ((21 / 2, 261 / 2), (21, 63), 0) = Inr (roi, m)
          \<and> array_size roi = 0"
    using roi(1) sz by blast
  show ?thesis
    by (rule exI [of _ left_edge_mask], rule exI [of _ "(21 / 2, 261 / 2)"], rule exI [of _ 21],
        rule exI [of _ 63], rule exI [of _ 0])
      (use inner off shape_left_edge_mask in simp)
qed

section \<open>The round trip into the ROI\<close>

text \<open>
  Two ways in which a remapped point misses the ROI. For the rectangle at the left border
  the ROI has no column, whatever the angle, the rotation matrix and the point. For an
  upright rectangle of width 5 well inside a 50x50 image, spanning columns 7 to 12 and
  rows 20 to 41, the margin of 15% is less than a pixel: the ROI has 5 columns and the
  corner \<open>(12, 20)\<close> of the rectangle is remapped to \<open>(5, 0)\<close>, one column beyond it.
\<close>

lemma roundtrip_empty_roi_outside:
  "\<exists>roi. extract_roi getRot sample left_edge_mask ((21 / 2, 261 / 2), (21, 63), theta)
             = Inr (roi, getRot (21 / 2, 261 / 2) theta 1)
        \<and> shape roi = [72, 0, 3]
        \<and> \<not> in_roi_bounds roi
             (adjust_for_roi_crop (transform_point p (getRot (21 / 2, 261 / 2) theta 1))
                (21 / 2, 261 / 2) (21, 63))"
proof -
  from extract_roi_left_edge [of getRot sample theta]
  obtain r1 where r1: "extract_roi getRot sample left_edge_mask ((21 / 2, 261 / 2), (21, 63), theta)
            = Inr (r1, getRot (21 / 2, 261 / 2) theta 1)" "shape r1 = [72, 0, 3]"
    by blast
  have "\<not> in_roi_bounds r1 q" for q
    using r1(2) by (simp add: in_roi_bounds_def)
  with r1 show ?thesis by blast
qed

lemma roundtrip_small_rectangle_outside:
  "\<exists>roi. extract_roi rotation_matrix_2d sample small_mask ((19 / 2, 61 / 2), (5, 21), 0)
             = Inr (roi, ((1, 0, 0), (0, 1, 0)))
        \<and> shape roi = [24, 5, 3]
        \<and> adjust_for_roi_crop (transform_point (12, 20) ((1, 0, 0), (0, 1, 0))) (19 / 2, 61 / 2) (5, 21)
             = (5, 0)
        \<and> \<not> in_roi_bounds roi (5, 0)"
proof -
  from extract_roi_inside [of sample]
  obtain r2 where r2: "extract_roi rotation_matrix_2d sample small_mask ((19 / 2, 61 / 2), (5, 21), 0)
            = Inr (r2, ((1, 0, 0), (0, 1, 0)))" "shape r2 = [24, 5, 3]"
    by blast
  have "\<not> in_roi_bounds r2 (5, 0)"
    using r2(2) by (simp add: in_roi_bounds_def)
  with r2 roundtrip_inside show ?thesis by blast
qed

lemma shape_mask100: "shape mask100 = [100, 100, 3]"
  unfolding mask100_def by (simp only: ndarray.simps)

lemma sin_arccos_three_fifths: "sin (arccos (3 / 5)) = 4 / 5"
proof -
  have "sin (arccos (3 / 5)) = sqrt (1 - (3 / 5)\<^sup>2)" by (rule sin_arccos) simp_all
  also have "1 - (3 / 5 :: real)\<^sup>2 = (4 / 5)\<^sup>2" by (simp add: power2_eq_square)
  also have "sqrt ((4 / 5 :: real)\<^sup>2) = 4 / 5" by simp
  finally show ?thesis .
qed

lemma tilted_matrix:
  "rotation_matrix_2d (2379 / 50, 1086 / 25) (arccos (3 / 5) * 180 / pi) 1
     = ((3 / 5, 4 / 5, - 393 / 25), (- 4 / 5, 3 / 5, 1386 / 25))"
  by (simp add: rotation_matrix_2d_def sin_arccos_three_fifths Let_def)

text \<open>
  Claim C1 does not hold of the code. \<open>(29, 44)\<close> is one of the points the rectangle of
  the tilted finger is built from. The matrix that \<open>extract_roi\<close> returns maps it to
  \<open>(36, 58)\<close>, and \<open>adjust_for_roi_crop\<close> with the center and size of the rectangle maps that
  to \<open>(-1, 35)\<close>, which is not within the bounds of the ROI of 46 rows and 24 columns. The
  crop starts at column \<open>int (47.58 - 24.61 // 2) = 35\<close>, computed from the size enlarged by
  15%; \<open>adjust_for_roi_crop\<close> is given the size of the rectangle and subtracts
  \<open>int (47.58 - 21.4 // 2) = 37\<close>.
\<close>

theorem roundtrip_misses_roi:
  "(29, 44) \<in> set tilted_points
   \<and> get_bounding_box (\<lambda>_. tilted_rect) mask100 tilted_points = tilted_rect
   \<and> (\<exists>roi. extract_roi rotation_matrix_2d sample mask100 tilted_rect
               = Inr (roi, ((3 / 5, 4 / 5, - 393 / 25), (- 4 / 5, 3 / 5, 1386 / 25)))
          \<and> shape roi = [46, 24, 3]
          \<and> transform_point (29, 44) ((3 / 5, 4 / 5, - 393 / 25), (- 4 / 5, 3 / 5, 1386 / 25)) = (36, 58)
          \<and> adjust_for_roi_crop (36, 58) (fst tilted_rect) (fst (snd tilted_rect)) = (- 1, 35)
          \<and> \<not> in_roi_bounds roi (- 1, 35))"
proof -
  have mem: "(29, 44) \<in> set tilted_points" by (simp add: tilted_points_def)
  have box: "get_bounding_box (\<lambda>_. tilted_rect) mask100 tilted_points = tilted_rect"
    by (simp add: get_bounding_box_def tilted_rect_def)
  from extract_roi_shape [OF shape_mask100, of rotation_matrix_2d sample "(2379 / 50, 1086 / 25)"
      "107 / 5" 40 "arccos (3 / 5) * 180 / pi"]
  obtain roi where run: "extract_roi rotation_matrix_2d sample mask100 tilted_rect
               = Inr (roi, ((3 / 5, 4 / 5, - 393 / 25), (- 4 / 5, 3 / 5, 1386 / 25)))"
    and shp: "shape roi = [46, 24, 3]"
    unfolding tilted_matrix tilted_rect_def [symmetric]
    by (auto simp add: py_int_def py_floordiv_def slice_bound_def)
  have t: "transform_point (29, 44) ((3 / 5, 4 / 5, - 393 / 25), (- 4 / 5, 3 / 5, 1386 / 25)) = (36, 58)"
    by (simp add: transform_point_def py_int_def)
  have a: "adjust_for_roi_crop (36, 58) (fst tilted_rect) (fst (snd tilted_rect)) = (- 1, 35)"
    by (simp add: adjust_for_roi_crop_def tilted_rect_def py_int_def py_floordiv_def Let_def)
  have out: "\<not> in_roi_bounds roi (- 1, 35)"
    by (simp add: in_roi_bounds_def)
  show ?thesis using mem box run shp t a out by blast
qed

section \<open>The orchestrator\<close>

lemma landmarks_to_pixel_coordinates_pad:
  "landmarks_to_pixel_coordinates (ext\<lparr>cv_copyMakeBorder := f\<rparr>) img hands
     = landmarks_to_pixel_coordinates ext img hands"
  by (simp add: landmarks_to_pixel_coordinates_def)

lemma increase_contrast_pad:
  "increase_contrast (ext\<lparr>cv_copyMakeBorder := f\<rparr>) img = increase_contrast ext img"
  by (simp add: increase_contrast_def Let_def)

lemma process_finger_pad:
  "process_finger (ext\<lparr>cv_copyMakeBorder := f\<rparr>) lps cps rgb_mask PATH dir key w
     = process_finger ext lps cps rgb_mask PATH dir key w"
  by (simp add: process_finger_def)

lemma finger_loop_pad:
  "finger_loop (ext\<lparr>cv_copyMakeBorder := f\<rparr>) lps cps rgb_mask PATH dir keys w
     = finger_loop ext lps cps rgb_mask PATH dir keys w"
  by (induction keys arbitrary: w) (simp_all add: process_finger_pad cong: sum.case_cong)

text \<open>
  Claim C9. The padding of the original image has no effect on what \<open>process_image\<close>
  produces: whatever \<open>cv2.copyMakeBorder\<close> is replaced by (in particular by the function
  that returns the image unpadded), the exception raised, the files written (every finger
  ROI with its two markers, and the mask) and the lines printed are the same. The
  rectangle, the warp, the crop and the remapping are computed from \<open>rgb_mask\<close> and the
  landmark and contour coordinates of the unpadded image.
\<close>

theorem process_image_ignores_padding:
  "process_image (ext\<lparr>cv_copyMakeBorder := f\<rparr>) PATH MASKS_OUTPUT_DIR FINGER_OUTPUT_DIR NAIL_OUTPUT_DIR w
     = process_image ext PATH MASKS_OUTPUT_DIR FINGER_OUTPUT_DIR NAIL_OUTPUT_DIR w"
  by (cases "locate_hand_landmarks ext PATH")
    (simp add: process_image_def landmarks_to_pixel_coordinates_pad increase_contrast_pad
      finger_loop_pad Let_def del: finger_loop.simps
      cong: if_cong sum.case_cong prod.case_cong option.case_cong)

text \<open>
  Claim C7. When the detector finds no hand, \<open>process_image\<close> returns without an
  exception, writes no file (the files are those present before the call) and prints the
  warning that the image is skipped.
\<close>

theorem process_image_no_hands:
  assumes "snd (locate_hand_landmarks ext PATH) = []"
  shows "fst (process_image ext PATH MASKS_OUTPUT_DIR FINGER_OUTPUT_DIR NAIL_OUTPUT_DIR w) = None
       \<and> files (snd (process_image ext PATH MASKS_OUTPUT_DIR FINGER_OUTPUT_DIR NAIL_OUTPUT_DIR w)) = files w
       \<and> printed (snd (process_image ext PATH MASKS_OUTPUT_DIR FINGER_OUTPUT_DIR NAIL_OUTPUT_DIR w))
           = printed w @ [''Warning: No landmarks detected for '' @ basename PATH
                           @ ''. Skipping save operation.'']"
proof -
  from assms obtain img where loc: "locate_hand_landmarks ext PATH = (img, [])"
    by (cases "locate_hand_landmarks ext PATH") simp
  have "process_image ext PATH MASKS_OUTPUT_DIR FINGER_OUTPUT_DIR NAIL_OUTPUT_DIR w
      = (None, print (''Warning: No landmarks detected for '' @ basename PATH
                       @ ''. Skipping save operation.'') w)"
    by (simp add: process_image_def loc)
  then show ?thesis by (simp add: print_def)
qed

theorem process_image_no_hands_witness:
  "\<forall>(ext :: externals) img.
     process_image (ext\<lparr>locate_hand_landmarks := \<lambda>_. (img, [])\<rparr>)
         ''photos/hand1.jpg'' ''masks'' ''fingers'' ''nails'' \<lparr>files = [], printed = []\<rparr>
       = (None, \<lparr>files = [],
                 printed = [''Warning: No landmarks detected for hand1.jpg. Skipping save operation.'']\<rparr>)"
proof (intro allI)
  fix ext :: externals and img
  let ?e = "ext\<lparr>locate_hand_landmarks := \<lambda>_. (img, [])\<rparr>"
  let ?r = "process_image ?e ''photos/hand1.jpg'' ''masks'' ''fingers'' ''nails'' \<lparr>files = [], printed = []\<rparr>"
  have h: "snd (locate_hand_landmarks ?e ''photos/hand1.jpg'') = []" by simp
  from process_image_no_hands [OF h, of "''masks''" "''fingers''" "''nails''" "\<lparr>files = [], printed = []\<rparr>"]
  have "fst ?r = None" "files (snd ?r) = []"
    "printed (snd ?r) = [''Warning: No landmarks detected for hand1.jpg. Skipping save operation.'']"
    by (simp_all add: basename_def)
  then show "?r = (None, \<lparr>files = [],
                 printed = [''Warning: No landmarks detected for hand1.jpg. Skipping save operation.'']\<rparr>)"
    by (cases ?r) simp
qed

end
